theory Spec2Isabelle
  imports Complex_Main "HOL-Library.Stream"
begin

section \<open>Synthetic regression data: generation and publication\<close>

text \<open>
  A shallow embedding of \<^verbatim>\<open>synthetic_data_generation.py\<close>. The script draws a
  synthetic regression dataset (\<open>generate_dataset\<close>), writes it to a local CSV file and
  tries to upload that file to an S3 bucket (\<open>persist_dataset\<close>).

  Conventions of the embedding:
  \<^item> Python floats are idealised as \<^typ>\<open>real\<close>: rounding, infinities and NaN are outside
    the model.
  \<^item> Everything the script obtains from outside (the calendar, the process-wide random
    source, the local disk, the storage service, standard output) is a field of the
    record \<open>world\<close>; a function that has effects returns the updated world.
  \<^item> A raised exception is a value \<open>Inl e\<close>; a normal return is \<open>Inr v\<close>.
\<close>

subsection \<open>Exceptions\<close>

datatype error =
    ValueError                \<comment> \<open>numpy and pandas: bad dimension, mismatched lengths\<close>
  | TypeError                 \<comment> \<open>pandas: ordering comparison of text with a number\<close>
  | UndefinedVariableError    \<comment> \<open>pandas: the query names a column that is absent\<close>
  | ClientError               \<comment> \<open>\<^verbatim>\<open>botocore.exceptions.ClientError\<close> and its subclasses\<close>
  | OtherError string         \<comment> \<open>any other exception class, by name\<close>

subsection \<open>Calendar dates and their text\<close>

text \<open>
  A \<^verbatim>\<open>datetime.date\<close> has a year from 1 to 9999, a month from 1 to 12 and a day from 1
  to 31; its \<^verbatim>\<open>str\<close> is the ISO form, each part in decimal and padded with zeros.
\<close>

record date =
  year :: nat
  month :: nat
  day :: nat

definition digit_char :: "nat \<Rightarrow> char" where
  "digit_char d = ''0123456789'' ! d"

function dec :: "nat \<Rightarrow> string" where
  "dec n = (if n < 10 then [digit_char n] else dec (n div 10) @ [digit_char (n mod 10)])"
  by pat_completeness auto
termination
  by (relation "measure id") auto

declare dec.simps [simp del]

definition zfill :: "nat \<Rightarrow> string \<Rightarrow> string" where
  "zfill w s = replicate (w - length s) CHR ''0'' @ s"

definition date_str :: "date \<Rightarrow> string" where
  \<comment> \<open>\<^verbatim>\<open>str(d)\<close> of a \<^verbatim>\<open>datetime.date\<close>: the ISO form \<^verbatim>\<open>%04d-%02d-%02d\<close>.\<close>
  "date_str d =
     zfill 4 (dec (year d)) @ ''-'' @ zfill 2 (dec (month d)) @ ''-'' @ zfill 2 (dec (day d))"

subsection \<open>The world outside the script\<close>

text \<open>
  The random source is described by what it will return: the sequence of values the
  script's uniform call yields and the sequence its normal call yields. A call for \<open>n\<close>
  values takes the next \<open>n\<close> of its sequence. The three fault fields say what the
  environment raises, if anything, when the script writes the file, obtains the client and
  uploads.
\<close>

record random_source =
  uniform_draws :: "real stream"  \<comment> \<open>the values \<^verbatim>\<open>np.random.uniform(0, 100, _)\<close> yields next\<close>
  normal_draws :: "real stream"   \<comment> \<open>the values \<^verbatim>\<open>np.random.normal(0, 1, _)\<close> yields next\<close>

record world =
  today :: date                                  \<comment> \<open>what \<^verbatim>\<open>date.today()\<close> returns\<close>
  rng :: random_source                           \<comment> \<open>numpy's process-wide random source\<close>
  disk :: "string \<rightharpoonup> string list"              \<comment> \<open>local files: name to lines\<close>
  bucket_store :: "string \<times> string \<rightharpoonup> string list"  \<comment> \<open>objects by (bucket, key)\<close>
  upload_calls :: "(string \<times> string \<times> string) list" \<comment> \<open>calls of \<^verbatim>\<open>upload_file\<close>, oldest first\<close>
  stdout :: "string list"                        \<comment> \<open>printed lines, oldest first\<close>
  to_csv_fault :: "string \<Rightarrow> error option"       \<comment> \<open>what writing the named file raises\<close>
  client_fault :: "error option"                 \<comment> \<open>what \<^verbatim>\<open>boto3.client('s3')\<close> raises\<close>
  upload_fault :: "string \<Rightarrow> string \<Rightarrow> string \<Rightarrow> error option"
                                                 \<comment> \<open>what uploading (file, bucket, key) raises\<close>

subsection \<open>numpy\<close>

definition np_full :: "int \<Rightarrow> 'a \<Rightarrow> error + 'a list" where
  \<comment> \<open>\<^verbatim>\<open>np.full(n, v)\<close>; a negative dimension is rejected.\<close>
  "np_full n v = (if n < 0 then Inl ValueError else Inr (replicate (nat n) v))"

definition np_random_uniform :: "int \<Rightarrow> random_source \<Rightarrow> error + real list \<times> random_source" where
  \<comment> \<open>\<^verbatim>\<open>np.random.uniform(0, 100, n)\<close>: the next \<open>n\<close> draws, which are consumed.\<close>
  "np_random_uniform n g =
     (if n < 0 then Inl ValueError
      else Inr (stake (nat n) (uniform_draws g),
                g\<lparr>uniform_draws := sdrop (nat n) (uniform_draws g)\<rparr>))"

definition np_random_normal :: "int \<Rightarrow> random_source \<Rightarrow> error + real list \<times> random_source" where
  \<comment> \<open>\<^verbatim>\<open>np.random.normal(0, 1, n)\<close>: the next \<open>n\<close> draws, which are consumed.\<close>
  "np_random_normal n g =
     (if n < 0 then Inl ValueError
      else Inr (stake (nat n) (normal_draws g),
                g\<lparr>normal_draws := sdrop (nat n) (normal_draws g)\<rparr>))"

definition scalar_mul :: "real \<Rightarrow> real list \<Rightarrow> real list" where
  "scalar_mul c xs = map (\<lambda>x. c * x) xs"

definition scalar_add :: "real \<Rightarrow> real list \<Rightarrow> real list" where
  "scalar_add c xs = map (\<lambda>x. c + x) xs"

definition array_add :: "real list \<Rightarrow> real list \<Rightarrow> error + real list" where
  \<comment> \<open>\<open>+\<close> of two one-dimensional arrays: elementwise on equal lengths, an array of one
      element is broadcast, any other pair of shapes is rejected.\<close>
  "array_add xs ys =
     (if length xs = length ys then Inr (map2 (+) xs ys)
      else if length xs = 1 then Inr (map (\<lambda>y. hd xs + y) ys)
      else if length ys = 1 then Inr (map (\<lambda>x. x + hd ys) xs)
      else Inl ValueError)"

subsection \<open>pandas\<close>

datatype column = StrCol "string list" | NumCol "real list"

fun col_len :: "column \<Rightarrow> nat" where
  "col_len (StrCol ss) = length ss"
| "col_len (NumCol vs) = length vs"

record dataframe =
  index :: "nat list"                   \<comment> \<open>the row labels\<close>
  columns :: "(string \<times> column) list"    \<comment> \<open>the columns by name, in insertion order\<close>

definition DataFrame :: "(string \<times> column) list \<Rightarrow> error + dataframe" where
  \<comment> \<open>\<^verbatim>\<open>pd.DataFrame({...})\<close>: the arrays must have one length; rows are labelled from 0.\<close>
  "DataFrame d =
     (let n = (case d of [] \<Rightarrow> 0 | (_, c) # _ \<Rightarrow> col_len c)
      in if list_all (\<lambda>(_, c). col_len c = n) d
         then Inr \<lparr>index = [0..<n], columns = d\<rparr>
         else Inl ValueError)"

definition take_rows :: "bool list \<Rightarrow> 'a list \<Rightarrow> 'a list" where
  \<comment> \<open>selection by a boolean array: the entries at the positions marked True\<close>
  "take_rows sel xs = map snd (filter fst (zip sel xs))"

fun col_take_rows :: "bool list \<Rightarrow> column \<Rightarrow> column" where
  "col_take_rows sel (StrCol ss) = StrCol (take_rows sel ss)"
| "col_take_rows sel (NumCol vs) = NumCol (take_rows sel vs)"

definition query_ge :: "string \<Rightarrow> real \<Rightarrow> dataframe \<Rightarrow> error + dataframe" where
  \<comment> \<open>\<^verbatim>\<open>df.query('<name> >= <bound>')\<close>: the rows whose entry in the named column is at
      least the bound, with their labels, in their order.\<close>
  "query_ge name bound df =
     (case map_of (columns df) name of
        None \<Rightarrow> Inl UndefinedVariableError
      | Some (StrCol ss) \<Rightarrow> Inl TypeError
      | Some (NumCol vs) \<Rightarrow>
          (let sel = map (\<lambda>v. bound \<le> v) vs
           in Inr \<lparr>index = take_rows sel (index df),
                   columns = map (\<lambda>(k, c). (k, col_take_rows sel c)) (columns df)\<rparr>))"

fun join :: "string \<Rightarrow> string list \<Rightarrow> string" where
  "join sep [] = []"
| "join sep [s] = s"
| "join sep (s # t # ts) = s @ sep @ join sep (t # ts)"

fun col_text :: "(real \<Rightarrow> string) \<Rightarrow> column \<Rightarrow> string list" where
  "col_text fmt (StrCol ss) = ss"
| "col_text fmt (NumCol vs) = map fmt vs"

definition to_csv :: "(real \<Rightarrow> string) \<Rightarrow> dataframe \<Rightarrow> bool \<Rightarrow> bool \<Rightarrow> string list" where
  \<comment> \<open>The lines \<^verbatim>\<open>df.to_csv(path, header=..., index=...)\<close> writes. \<open>fmt\<close> is the text pandas
      gives a float. No field of this program holds a comma, a quote or a line break, so
      quoting is left out. Every column holds one entry per row label.\<close>
  "to_csv fmt df header with_index =
     (let names = (if with_index then [''''] else []) @ map fst (columns df);
          cols = (if with_index then [map dec (index df)] else [])
                   @ map (\<lambda>(k, c). col_text fmt c) (columns df);
          rows = map (\<lambda>i. map (\<lambda>c. c ! i) cols) [0..<length (index df)]
      in (if header then [join '','' names] else []) @ map (join '','') rows)"

subsection \<open>The script\<close>

definition AWS_S3_BUCKET :: string where
  "AWS_S3_BUCKET = ''bodywork-ml-ops-project''"

definition ALPHA :: real where "ALPHA = 30"
definition BETA :: real where "BETA = 0.5"
definition SIGMA' :: real where "SIGMA' = 10"  \<comment> \<open>the script's \<^verbatim>\<open>SIGMA\<close>\<close>
definition N :: int where "N = 24 * 60"

definition generate_dataset ::
  "world \<Rightarrow> real \<Rightarrow> real \<Rightarrow> real \<Rightarrow> int \<Rightarrow> (error + dataframe) \<times> world" where
  \<comment> \<open>One \<open>case\<close> per statement of the body, in the source's order; the first exception
      is the result.\<close>
  "generate_dataset w alpha beta sigma n =
     (case np_full n (date_str (today w)) of
        Inl e \<Rightarrow> (Inl e, w)
      | Inr datestr \<Rightarrow>
     (case np_random_uniform n (rng w) of
        Inl e \<Rightarrow> (Inl e, w)
      | Inr (X, g1) \<Rightarrow>
     (case np_random_normal n g1 of
        Inl e \<Rightarrow> (Inl e, w\<lparr>rng := g1\<rparr>)
      | Inr (epsilon, g2) \<Rightarrow>
     (case array_add (scalar_add alpha (scalar_mul beta X)) (scalar_mul sigma epsilon) of
        Inl e \<Rightarrow> (Inl e, w\<lparr>rng := g2\<rparr>)
      | Inr y \<Rightarrow>
     (case DataFrame [(''date'', StrCol datestr), (''y'', NumCol y), (''X'', NumCol X)] of
        Inl e \<Rightarrow> (Inl e, w\<lparr>rng := g2\<rparr>)
      | Inr dataset \<Rightarrow>
     (case query_ge ''y'' 0 dataset of
        Inl e \<Rightarrow> (Inl e, w\<lparr>rng := g2\<rparr>)
      | Inr kept \<Rightarrow> (Inr kept, w\<lparr>rng := g2\<rparr>)))))))"

definition print :: "string \<Rightarrow> world \<Rightarrow> world" where
  "print s w = w\<lparr>stdout := stdout w @ [s]\<rparr>"

definition upload_file :: "string \<Rightarrow> string \<Rightarrow> string \<Rightarrow> world \<Rightarrow> (error + unit) \<times> world" where
  \<comment> \<open>\<^verbatim>\<open>s3_client.upload_file(filename, bucket, key)\<close>: the call is recorded; when the
      service accepts it, the object holds the file's lines. \<open>upload_fault\<close> is the exception
      that leaves the call. boto3 raises a failed transfer (a rejected or missing bucket,
      refused credentials) as \<^verbatim>\<open>boto3.exceptions.S3UploadFailedError\<close>, here
      \<open>OtherError ''S3UploadFailedError''\<close>; that class does not derive from \<open>ClientError\<close>.\<close>
  "upload_file filename bucket key w =
     (let w1 = w\<lparr>upload_calls := upload_calls w @ [(filename, bucket, key)]\<rparr>
      in case disk w filename of
           None \<Rightarrow> (Inl (OtherError ''FileNotFoundError''), w1)
         | Some body \<Rightarrow>
             (case upload_fault w filename bucket key of
                Some e \<Rightarrow> (Inl e, w1)
              | None \<Rightarrow> (Inr (), w1\<lparr>bucket_store := (bucket_store w)((bucket, key) \<mapsto> body)\<rparr>)))"

definition persist_dataset ::
  "(real \<Rightarrow> string) \<Rightarrow> world \<Rightarrow> dataframe \<Rightarrow> string \<Rightarrow> (error + unit) \<times> world" where
  \<comment> \<open>\<open>to_csv\<close> runs before the \<^verbatim>\<open>try\<close>; \<open>attempt\<close> is the body of the \<^verbatim>\<open>try\<close>, and the last
      \<open>case\<close> is its \<^verbatim>\<open>except ClientError\<close>.\<close>
  "persist_dataset fmt w dataset aws_bucket =
     (let data_date = today w;
          dataset_filename = ''regression-dataset-'' @ date_str data_date @ ''.csv''
      in case to_csv_fault w dataset_filename of
           Some e \<Rightarrow> (Inl e, w)
         | None \<Rightarrow>
             (let w1 = w\<lparr>disk := (disk w)(dataset_filename \<mapsto> to_csv fmt dataset True False)\<rparr>;
                  attempt =
                    (case client_fault w1 of
                       Some e \<Rightarrow> (Inl e, w1)
                     | None \<Rightarrow>
                         (case upload_file dataset_filename aws_bucket
                                 (''datasets/'' @ dataset_filename) w1 of
                            (Inl e, w2) \<Rightarrow> (Inl e, w2)
                          | (Inr u, w2) \<Rightarrow>
                              (Inr (),
                               print (''uploaded '' @ dataset_filename @ '' to s3://''
                                        @ aws_bucket @ ''/datasets/'') w2)))
              in case attempt of
                   (Inr u, w3) \<Rightarrow> (Inr (), w3)
                 | (Inl e, w3) \<Rightarrow>
                     (if e = ClientError
                      then (Inr (),
                            print ''could not upload dataset to S3 - check AWS credentials'' w3)
                      else (Inl e, w3))))"

definition main :: "(real \<Rightarrow> string) \<Rightarrow> world \<Rightarrow> (error + unit) \<times> world" where
  \<comment> \<open>Neither call is guarded, so an exception of either ends the run. The date is the
      same for both calls: a run does not cross midnight.\<close>
  "main fmt w =
     (case generate_dataset w ALPHA BETA SIGMA' N of
        (Inl e, w1) \<Rightarrow> (Inl e, w1)
      | (Inr dataset, w1) \<Rightarrow> persist_dataset fmt w1 dataset AWS_S3_BUCKET)"

subsection \<open>A concrete world\<close>

text \<open>
  A world in which nothing fails, used to instantiate the theorems below. With the
  script's parameters 30, 0.5 and 10 the first three rows get \<open>y = -14\<close>, \<open>55\<close> and
  \<open>89\<close>, so the first row is dropped and the other two are kept.
\<close>

definition demo_world :: world where
  "demo_world =
     \<lparr>today = \<lparr>year = 2021, month = 3, day = 7\<rparr>,
      rng = \<lparr>uniform_draws = [12, 50, 98] @- sconst 0,
             normal_draws = [-5, 0, 1] @- sconst 0\<rparr>,
      disk = Map.empty,
      bucket_store = Map.empty,
      upload_calls = [],
      stdout = [],
      to_csv_fault = (\<lambda>_. None),
      client_fault = None,
      upload_fault = (\<lambda>_ _ _. None)\<rparr>"

definition demo_fmt :: "real \<Rightarrow> string" where
  \<comment> \<open>a stand-in for the float formatter: the integer part of a non-negative number\<close>
  "demo_fmt v = dec (nat \<lfloor>v\<rfloor>)"

definition demo_dataset :: dataframe where
  \<comment> \<open>the table \<open>generate_dataset\<close> returns in \<open>demo_world\<close> for 30, 0.5, 10 and three rows\<close>
  "demo_dataset =
     \<lparr>index = [1, 2],
      columns = [(''date'', StrCol [''2021-03-07'', ''2021-03-07'']),
                 (''y'', NumCol [55, 89]), (''X'', NumCol [50, 98])]\<rparr>"

section \<open>Auxiliary facts\<close>

subsection \<open>Row selection and generation\<close>

lemma zip_as_nth:
  "zip xs ys = map (\<lambda>i. (xs ! i, ys ! i)) [0..<min (length xs) (length ys)]"
  by (rule nth_equalityI) simp_all

lemma take_rows_nth:
  "take_rows sel xs = map ((!) xs) (filter ((!) sel) [0..<min (length sel) (length xs)])"
  unfolding take_rows_def
  by (subst zip_as_nth) (simp add: filter_map comp_def)

lemma take_rows_tabulated:
  assumes len: "length xs = k" and nth: "\<And>i. i < k \<Longrightarrow> xs ! i = f i"
  shows "take_rows (map p [0..<k]) xs = map f (filter p [0..<k])"
proof -
  have "filter ((!) (map p [0..<k])) [0..<k] = filter p [0..<k]"
    by (rule filter_cong) simp_all
  moreover have "map ((!) xs) (filter p [0..<k]) = map f (filter p [0..<k])"
    by (rule map_cong) (simp_all add: nth)
  ultimately show ?thesis
    by (simp add: take_rows_nth len)
qed

lemma array_add_tabulated:
  assumes "length X = k" "length E = k"
  shows "array_add (scalar_add a (scalar_mul b X)) (scalar_mul s E)
         = Inr (map (\<lambda>i. a + b * X ! i + s * E ! i) [0..<k])"
proof -
  have "map2 (+) (scalar_add a (scalar_mul b X)) (scalar_mul s E)
         = map (\<lambda>i. a + b * X ! i + s * E ! i) [0..<k]"
    using assms by (intro nth_equalityI) (simp_all add: scalar_add_def scalar_mul_def)
  then show ?thesis
    using assms by (simp add: array_add_def scalar_add_def scalar_mul_def)
qed

lemma generate_dataset_eq:
  assumes "0 \<le> n"
  shows "generate_dataset w alpha beta sigma n =
    (let X = stake (nat n) (uniform_draws (rng w));
         epsilon = stake (nat n) (normal_draws (rng w));
         y = (\<lambda>i. alpha + beta * X ! i + sigma * epsilon ! i);
         kept = filter (\<lambda>i. 0 \<le> y i) [0..<nat n]
     in (Inr \<lparr>index = kept,
              columns = [(''date'', StrCol (map (\<lambda>i. date_str (today w)) kept)),
                         (''y'', NumCol (map y kept)),
                         (''X'', NumCol (map ((!) X) kept))]\<rparr>,
         w\<lparr>rng := \<lparr>uniform_draws = sdrop (nat n) (uniform_draws (rng w)),
                   normal_draws = sdrop (nat n) (normal_draws (rng w))\<rparr>\<rparr>))"
proof -
  define k where "k = nat n"
  define X where "X = stake k (uniform_draws (rng w))"
  define E where "E = stake k (normal_draws (rng w))"
  define y where "y = (\<lambda>i. alpha + beta * X ! i + sigma * E ! i)"
  define p where "p = (\<lambda>i. 0 \<le> y i)"
  have lX: "length X = k" and lE: "length E = k"
    by (simp_all add: X_def E_def)
  have ya: "array_add (scalar_add alpha (scalar_mul beta X)) (scalar_mul sigma E)
            = Inr (map y [0..<k])"
    unfolding y_def by (rule array_add_tabulated [OF lX lE])
  have sel: "map (\<lambda>v. 0 \<le> v) (map y [0..<k]) = map p [0..<k]"
    by (simp add: p_def)
  have t1: "take_rows (map p [0..<k]) [0..<k] = filter p [0..<k]"
    using take_rows_tabulated [of "[0..<k]" k "\<lambda>i. i" p] by simp
  have t2: "take_rows (map p [0..<k]) (replicate k d) = map (\<lambda>i. d) (filter p [0..<k])" for d :: string
    by (rule take_rows_tabulated) simp_all
  have t3: "take_rows (map p [0..<k]) (map y [0..<k]) = map y (filter p [0..<k])"
    by (rule take_rows_tabulated) simp_all
  have t4: "take_rows (map p [0..<k]) X = map ((!) X) (filter p [0..<k])"
    by (rule take_rows_tabulated) (simp_all add: lX)
  have q: "query_ge ''y'' 0
             \<lparr>index = [0..<k],
              columns = [(''date'', StrCol (replicate k d)), (''y'', NumCol (map y [0..<k])),
                         (''X'', NumCol X)]\<rparr>
           = Inr \<lparr>index = filter p [0..<k],
                  columns = [(''date'', StrCol (map (\<lambda>i. d) (filter p [0..<k]))),
                             (''y'', NumCol (map y (filter p [0..<k]))),
                             (''X'', NumCol (map ((!) X) (filter p [0..<k])))]\<rparr>" for d
    unfolding query_ge_def by (simp add: sel t1 t2 t3 t4 del: map_map)
  have df: "DataFrame [(''date'', StrCol (replicate k d)), (''y'', NumCol (map y [0..<k])),
                       (''X'', NumCol X)]
            = Inr \<lparr>index = [0..<k],
              columns = [(''date'', StrCol (replicate k d)), (''y'', NumCol (map y [0..<k])),
                         (''X'', NumCol X)]\<rparr>" for d
    by (simp add: DataFrame_def lX)
  have "generate_dataset w alpha beta sigma n =
     (Inr \<lparr>index = filter p [0..<k],
                  columns = [(''date'', StrCol (map (\<lambda>i. date_str (today w)) (filter p [0..<k]))),
                             (''y'', NumCol (map y (filter p [0..<k]))),
                             (''X'', NumCol (map ((!) X) (filter p [0..<k])))]\<rparr>,
         w\<lparr>rng := \<lparr>uniform_draws = sdrop k (uniform_draws (rng w)),
                   normal_draws = sdrop k (normal_draws (rng w))\<rparr>\<rparr>)"
    using assms
    by (simp add: generate_dataset_def np_full_def np_random_uniform_def np_random_normal_def
        k_def [symmetric] X_def [symmetric] E_def [symmetric] ya df q)
  then show ?thesis
    by (simp add: Let_def k_def X_def E_def y_def p_def)
qed

lemma generate_dataset_world:
  "\<exists>g. snd (generate_dataset w alpha beta sigma n) = w\<lparr>rng := g\<rparr>"
proof (cases "0 \<le> n")
  case True
  then have "snd (generate_dataset w alpha beta sigma n) =
      w\<lparr>rng := \<lparr>uniform_draws = sdrop (nat n) (uniform_draws (rng w)),
                normal_draws = sdrop (nat n) (normal_draws (rng w))\<rparr>\<rparr>"
    by (simp add: generate_dataset_eq Let_def)
  then show ?thesis ..
next
  case False
  then have "snd (generate_dataset w alpha beta sigma n) = w\<lparr>rng := rng w\<rparr>"
    by (simp add: generate_dataset_def np_full_def)
  then show ?thesis ..
qed

lemma generate_dataset_main_returns:
  "\<exists>dataset. fst (generate_dataset w ALPHA BETA SIGMA' N) = Inr dataset"
  by (simp add: generate_dataset_eq N_def Let_def)

subsection \<open>Decimal text of dates\<close>

lemma dec_digit: "n < 10 \<Longrightarrow> dec n = [digit_char n]"
  by (subst dec.simps) simp

lemma dec_step: "10 \<le> n \<Longrightarrow> dec n = dec (n div 10) @ [digit_char (n mod 10)]"
  by (subst dec.simps) simp

lemma digit_char_0: "digit_char 0 = CHR ''0''"
  by (simp add: digit_char_def)

lemma dec_2: "10 \<le> n \<Longrightarrow> n < 100 \<Longrightarrow> dec n = [digit_char (n div 10), digit_char (n mod 10)]"
  by (simp add: dec_step dec_digit)

lemma dec_3:
  assumes "100 \<le> n" "n < 1000"
  shows "dec n = [digit_char (n div 100), digit_char (n div 10 mod 10), digit_char (n mod 10)]"
proof -
  have "n div 10 div 10 = n div 100"
    by (simp add: div_mult2_eq [symmetric])
  then show ?thesis
    using assms by (simp add: dec_step [of n] dec_2)
qed

lemma dec_4:
  assumes "1000 \<le> n" "n < 10000"
  shows "dec n = [digit_char (n div 1000), digit_char (n div 100 mod 10),
                  digit_char (n div 10 mod 10), digit_char (n mod 10)]"
proof -
  have "n div 10 div 100 = n div 1000" "n div 10 div 10 = n div 100"
    by (simp_all add: div_mult2_eq [symmetric])
  then show ?thesis
    using assms by (simp add: dec_step [of n] dec_3)
qed

lemma zfill_2_dec:
  assumes "n < 100"
  shows "zfill 2 (dec n) = [digit_char (n div 10), digit_char (n mod 10)]"
proof (cases "n < 10")
  case True
  then show ?thesis
    by (simp add: dec_digit zfill_def digit_char_0)
next
  case False
  then show ?thesis
    using assms by (simp add: dec_2 zfill_def)
qed

lemma zfill_4_dec:
  assumes "n < 10000"
  shows "zfill 4 (dec n) = [digit_char (n div 1000), digit_char (n div 100 mod 10),
                            digit_char (n div 10 mod 10), digit_char (n mod 10)]"
proof -
  consider "n < 10" | "10 \<le> n" "n < 100" | "100 \<le> n" "n < 1000" | "1000 \<le> n"
    by linarith
  then show ?thesis
  proof cases
    case 1
    then show ?thesis
      by (simp add: dec_digit zfill_def digit_char_0 numeral_3_eq_3)
  next
    case 2
    then show ?thesis
      by (simp add: dec_2 zfill_def digit_char_0 numeral_2_eq_2)
  next
    case 3
    then show ?thesis
      by (simp add: dec_3 zfill_def digit_char_0)
  next
    case 4
    then show ?thesis
      using assms by (simp add: dec_4 zfill_def)
  qed
qed

lemma date_str_iso:
  assumes "year d < 10000" "month d < 100" "day d < 100"
  shows "date_str d =
           [digit_char (year d div 1000), digit_char (year d div 100 mod 10),
            digit_char (year d div 10 mod 10), digit_char (year d mod 10)]
           @ ''-'' @ [digit_char (month d div 10), digit_char (month d mod 10)]
           @ ''-'' @ [digit_char (day d div 10), digit_char (day d mod 10)]"
  using assms by (simp add: date_str_def zfill_4_dec zfill_2_dec)

subsection \<open>Writing and uploading\<close>

lemma to_csv_date_y_X:
  assumes cols: "columns df = [(''date'', StrCol ds), (''y'', NumCol ys), (''X'', NumCol xs)]"
    and lens: "length ds = length (index df)" "length ys = length (index df)"
      "length xs = length (index df)"
  shows "to_csv fmt df True False =
           ''date,y,X'' # map (\<lambda>(d, v, x). d @ '','' @ fmt v @ '','' @ fmt x) (zip ds (zip ys xs))"
proof -
  have "map (\<lambda>i. join '','' [ds ! i, map fmt ys ! i, map fmt xs ! i]) [0..<length (index df)]
        = map (\<lambda>(d, v, x). d @ '','' @ fmt v @ '','' @ fmt x) (zip ds (zip ys xs))"
    using lens by (intro nth_equalityI) simp_all
  then show ?thesis
    by (simp add: to_csv_def cols comp_def)
qed

lemma persist_dataset_to_csv_raises:
  assumes "fn = ''regression-dataset-'' @ date_str (today w) @ ''.csv''"
    and "to_csv_fault w fn = Some e"
  shows "persist_dataset fmt w dataset aws_bucket = (Inl e, w)"
  using assms(2) unfolding assms(1) by (simp add: persist_dataset_def)

lemma persist_dataset_client_raises:
  assumes "fn = ''regression-dataset-'' @ date_str (today w) @ ''.csv''"
    and "to_csv_fault w fn = None" and "client_fault w = Some e"
  shows "persist_dataset fmt w dataset aws_bucket =
     (let w1 = w\<lparr>disk := (disk w)(fn \<mapsto> to_csv fmt dataset True False)\<rparr>
      in if e = ClientError
         then (Inr (), w1\<lparr>stdout := stdout w @ [''could not upload dataset to S3 - check AWS credentials'']\<rparr>)
         else (Inl e, w1))"
  using assms(2-) unfolding assms(1) by (simp add: persist_dataset_def print_def Let_def)

lemma persist_dataset_upload_raises:
  assumes "fn = ''regression-dataset-'' @ date_str (today w) @ ''.csv''"
    and "to_csv_fault w fn = None" and "client_fault w = None"
    and "upload_fault w fn aws_bucket (''datasets/'' @ fn) = Some e"
  shows "persist_dataset fmt w dataset aws_bucket =
     (let w1 = w\<lparr>disk := (disk w)(fn \<mapsto> to_csv fmt dataset True False),
                 upload_calls := upload_calls w @ [(fn, aws_bucket, ''datasets/'' @ fn)]\<rparr>
      in if e = ClientError
         then (Inr (), w1\<lparr>stdout := stdout w @ [''could not upload dataset to S3 - check AWS credentials'']\<rparr>)
         else (Inl e, w1))"
  using assms(2-) unfolding assms(1) by (simp add: persist_dataset_def upload_file_def print_def Let_def)

lemma persist_dataset_uploaded:
  assumes "fn = ''regression-dataset-'' @ date_str (today w) @ ''.csv''"
    and "to_csv_fault w fn = None" and "client_fault w = None"
    and "upload_fault w fn aws_bucket (''datasets/'' @ fn) = None"
  shows "persist_dataset fmt w dataset aws_bucket =
     (Inr (),
      w\<lparr>disk := (disk w)(fn \<mapsto> to_csv fmt dataset True False),
        upload_calls := upload_calls w @ [(fn, aws_bucket, ''datasets/'' @ fn)],
        bucket_store := (bucket_store w)((aws_bucket, ''datasets/'' @ fn) \<mapsto> to_csv fmt dataset True False),
        stdout := stdout w @ [''uploaded '' @ fn @ '' to s3://'' @ aws_bucket @ ''/datasets/'']\<rparr>)"
  using assms(2-) unfolding assms(1) by (simp add: persist_dataset_def upload_file_def print_def Let_def)

lemma persist_dataset_propagates:
  assumes fn: "fn = ''regression-dataset-'' @ date_str (today w) @ ''.csv''"
    and e: "e \<noteq> ClientError"
    and raised: "to_csv_fault w fn = Some e
       \<or> to_csv_fault w fn = None
          \<and> (client_fault w = Some e
              \<or> client_fault w = None \<and> upload_fault w fn aws_bucket (''datasets/'' @ fn) = Some e)"
  shows "fst (persist_dataset fmt w dataset aws_bucket) = Inl e"
proof -
  from raised consider
      (csv) "to_csv_fault w fn = Some e"
    | (cli) "to_csv_fault w fn = None" "client_fault w = Some e"
    | (upl) "to_csv_fault w fn = None" "client_fault w = None"
        "upload_fault w fn aws_bucket (''datasets/'' @ fn) = Some e"
    by auto
  then show ?thesis
  proof cases
    case csv
    then show ?thesis
      by (simp add: persist_dataset_to_csv_raises [OF fn])
  next
    case cli
    then show ?thesis
      using e by (simp add: persist_dataset_client_raises [OF fn] Let_def)
  next
    case upl
    then show ?thesis
      using e by (simp add: persist_dataset_upload_raises [OF fn] Let_def)
  qed
qed

lemma main_propagates:
  assumes fn: "fn = ''regression-dataset-'' @ date_str (today w) @ ''.csv''"
    and e: "e \<noteq> ClientError"
    and raised: "to_csv_fault w fn = Some e
       \<or> to_csv_fault w fn = None
          \<and> (client_fault w = Some e
              \<or> client_fault w = None \<and> upload_fault w fn AWS_S3_BUCKET (''datasets/'' @ fn) = Some e)"
  shows "fst (main fmt w) = Inl e"
proof -
  obtain dataset w1 where g: "generate_dataset w ALPHA BETA SIGMA' N = (Inr dataset, w1)"
    using generate_dataset_main_returns [of w] by (cases "generate_dataset w ALPHA BETA SIGMA' N") auto
  obtain g' where w1: "w1 = w\<lparr>rng := g'\<rparr>"
    using generate_dataset_world [of w ALPHA BETA SIGMA' N] by (auto simp: g)
  have fn1: "fn = ''regression-dataset-'' @ date_str (today w1) @ ''.csv''"
    unfolding fn w1 by simp
  have raised1: "to_csv_fault w1 fn = Some e
       \<or> to_csv_fault w1 fn = None
          \<and> (client_fault w1 = Some e
              \<or> client_fault w1 = None \<and> upload_fault w1 fn AWS_S3_BUCKET (''datasets/'' @ fn) = Some e)"
    using raised unfolding w1 by simp
  have "fst (persist_dataset fmt w1 dataset AWS_S3_BUCKET) = Inl e"
    by (rule persist_dataset_propagates [OF fn1 e raised1])
  then show ?thesis
    by (simp add: main_def g)
qed

subsection \<open>The concrete world evaluated\<close>

lemma demo_today: "date_str (today demo_world) = ''2021-03-07''"
  by (simp add: demo_world_def date_str_def zfill_def dec.simps digit_char_def)

lemma demo_X3: "stake 3 (uniform_draws (rng demo_world)) = [12, 50, 98]"
  by (simp add: demo_world_def eval_nat_numeral)

lemma demo_E3: "stake 3 (normal_draws (rng demo_world)) = [-5, 0, 1]"
  by (simp add: demo_world_def eval_nat_numeral)

lemma demo_generate:
  "fst (generate_dataset demo_world 30 (1/2) 10 3) = Inr demo_dataset"
  using generate_dataset_eq [of 3 demo_world 30 "1/2" 10]
  by (simp add: Let_def demo_today demo_X3 demo_E3 upt_rec demo_dataset_def)

lemma demo_fmt_values:
  "demo_fmt 55 = ''55''" "demo_fmt 89 = ''89''" "demo_fmt 50 = ''50''" "demo_fmt 98 = ''98''"
  by (simp_all add: demo_fmt_def dec.simps digit_char_def)

lemma demo_csv:
  "to_csv demo_fmt demo_dataset True False =
     [''date,y,X'', ''2021-03-07,55,50'', ''2021-03-07,89,98'']"
proof -
  have "to_csv demo_fmt demo_dataset True False =
          ''date,y,X'' # map (\<lambda>(d, v, x). d @ '','' @ demo_fmt v @ '','' @ demo_fmt x)
                           (zip [''2021-03-07'', ''2021-03-07''] (zip [55, 89] [50, 98]))"
    by (rule to_csv_date_y_X) (simp_all add: demo_dataset_def)
  then show ?thesis
    by (simp add: demo_fmt_values)
qed

section \<open>Properties of \<open>generate_dataset\<close>\<close>

text \<open>
  Claim C1. For every \<open>n > 0\<close> and all parameters, \<open>generate_dataset\<close> returns a table
  with the three columns \<open>date\<close>, \<open>y\<close>, \<open>X\<close>; the table has at most \<open>n\<close> rows, every
  retained \<open>y\<close> is at least 0, and the three columns have equal length (the number of row
  labels).
\<close>

theorem generate_dataset_at_most_n_rows_nonneg:
  "0 < n \<Longrightarrow>
   \<exists>ix ds ys xs w'.
     generate_dataset w alpha beta sigma n =
       (Inr \<lparr>index = ix,
             columns = [(''date'', StrCol ds), (''y'', NumCol ys), (''X'', NumCol xs)]\<rparr>, w')
     \<and> length ix \<le> nat n \<and> (\<forall>v \<in> set ys. 0 \<le> v)
     \<and> length xs = length ys \<and> length ys = length ds \<and> length ds = length ix"
proof -
  assume "0 < n"
  then have n: "0 \<le> n" by simp
  define X where "X = stake (nat n) (uniform_draws (rng w))"
  define E where "E = stake (nat n) (normal_draws (rng w))"
  define y where "y = (\<lambda>i. alpha + beta * X ! i + sigma * E ! i)"
  define kept where "kept = filter (\<lambda>i. 0 \<le> y i) [0..<nat n]"
  have "length kept \<le> nat n"
    using length_filter_le [of "\<lambda>i. 0 \<le> y i" "[0..<nat n]"] by (simp add: kept_def)
  moreover have "\<forall>v \<in> set (map y kept). 0 \<le> v"
    by (simp add: kept_def)
  moreover have "\<exists>w'. generate_dataset w alpha beta sigma n =
      (Inr \<lparr>index = kept,
            columns = [(''date'', StrCol (map (\<lambda>i. date_str (today w)) kept)),
                       (''y'', NumCol (map y kept)), (''X'', NumCol (map ((!) X) kept))]\<rparr>, w')"
    unfolding generate_dataset_eq [OF n] Let_def kept_def y_def X_def E_def by blast
  ultimately show ?thesis
    by fastforce
qed

theorem generate_dataset_at_most_n_rows_nonneg_witness:
  "(0::int) < 3 \<and>
   (\<exists>ix ds ys xs w'.
     generate_dataset demo_world 30 (1/2) 10 3 =
       (Inr \<lparr>index = ix,
             columns = [(''date'', StrCol ds), (''y'', NumCol ys), (''X'', NumCol xs)]\<rparr>, w')
     \<and> length ix \<le> nat 3 \<and> (\<forall>v \<in> set ys. 0 \<le> v)
     \<and> length xs = length ys \<and> length ys = length ds \<and> length ds = length ix)"
  using generate_dataset_at_most_n_rows_nonneg [of 3 demo_world 30 "1/2" 10] by simp

text \<open>
  Claim C3. As a function of its parameters, of the \<open>n\<close> uniform draws \<open>X\<close> and of the \<open>n\<close>
  standard-normal draws \<open>epsilon\<close>, \<open>generate_dataset\<close> computes
  \<open>y = alpha + beta * X + sigma * epsilon\<close> row by row, attaches today's date to every row
  and drops exactly the rows with \<open>y < 0\<close>: the rows kept are those of \<open>0, \<dots>, n - 1\<close> whose
  \<open>y\<close> is not negative, in their order, each with its date, its \<open>y\<close> and its \<open>X\<close>. Both
  sequences of draws are consumed.
\<close>

theorem generate_dataset_linear_model_then_filter:
  "0 \<le> n \<Longrightarrow>
   generate_dataset w alpha beta sigma n =
    (let X = stake (nat n) (uniform_draws (rng w));
         epsilon = stake (nat n) (normal_draws (rng w));
         y = (\<lambda>i. alpha + beta * X ! i + sigma * epsilon ! i);
         kept = filter (\<lambda>i. \<not> y i < 0) [0..<nat n]
     in (Inr \<lparr>index = kept,
              columns = [(''date'', StrCol (map (\<lambda>i. date_str (today w)) kept)),
                         (''y'', NumCol (map y kept)),
                         (''X'', NumCol (map ((!) X) kept))]\<rparr>,
         w\<lparr>rng := \<lparr>uniform_draws = sdrop (nat n) (uniform_draws (rng w)),
                   normal_draws = sdrop (nat n) (normal_draws (rng w))\<rparr>\<rparr>))"
  by (simp add: generate_dataset_eq Let_def not_less)

theorem generate_dataset_linear_model_then_filter_witness:
  "(0::int) \<le> 3 \<and>
   fst (generate_dataset demo_world 30 (1/2) 10 3) =
     Inr \<lparr>index = [1, 2],
          columns = [(''date'', StrCol [''2021-03-07'', ''2021-03-07'']),
                     (''y'', NumCol [30 + 1/2 * 50 + 10 * 0, 30 + 1/2 * 98 + 10 * 1]),
                     (''X'', NumCol [50, 98])]\<rparr>"
  using generate_dataset_linear_model_then_filter [of 3 demo_world 30 "1/2" 10]
  by (simp add: Let_def demo_today demo_X3 demo_E3 upt_rec)

text \<open>
  Claim C4. With \<open>alpha = 0\<close>, \<open>beta = 1\<close>, \<open>sigma = 0\<close>, \<open>n = 5\<close> and the uniform draws fixed
  to \<open>[-1, 0, 1, 2, 3]\<close> (whatever the normal draws are), \<open>y\<close> equals \<open>X\<close>; the row with
  \<open>X = -1\<close> is dropped and exactly four rows remain, with \<open>y = [0, 1, 2, 3]\<close> in that order.
\<close>

theorem generate_dataset_scenario_five_draws:
  "array_add (scalar_add 0 (scalar_mul 1 [-1, 0, 1, 2, 3])) (scalar_mul 0 (stake 5 e))
     = Inr [-1, 0, 1, 2, 3]
   \<and> generate_dataset
       (w\<lparr>rng := \<lparr>uniform_draws = [-1, 0, 1, 2, 3] @- s, normal_draws = e\<rparr>\<rparr>) 0 1 0 5 =
     (Inr \<lparr>index = [1, 2, 3, 4],
           columns = [(''date'', StrCol (replicate 4 (date_str (today w)))),
                      (''y'', NumCol [0, 1, 2, 3]),
                      (''X'', NumCol [0, 1, 2, 3])]\<rparr>,
      w\<lparr>rng := \<lparr>uniform_draws = s, normal_draws = sdrop 5 e\<rparr>\<rparr>)"
  by (simp add: generate_dataset_eq Let_def stake_shift sdrop_shift upt_rec
      array_add_tabulated [of _ 5] eval_nat_numeral)




text \<open>
  Claim C8, as amended. With the same current date and the same draws (the first \<open>n\<close> of
  each sequence of the random source), calls with identical parameters return identical
  tables: the table is a function of the parameters, the draws and the date.
\<close>

theorem generate_dataset_deterministic_given_date_and_draws:
  assumes "today w1 = today w2"
    and "stake (nat n) (uniform_draws (rng w1)) = stake (nat n) (uniform_draws (rng w2))"
    and "stake (nat n) (normal_draws (rng w1)) = stake (nat n) (normal_draws (rng w2))"
  shows "fst (generate_dataset w1 alpha beta sigma n) = fst (generate_dataset w2 alpha beta sigma n)"
proof (cases "0 \<le> n")
  case True
  then show ?thesis
    by (simp add: generate_dataset_eq Let_def assms)
next
  case False
  then show ?thesis
    by (simp add: generate_dataset_def np_full_def)
qed

theorem generate_dataset_deterministic_given_date_and_draws_witness:
  "today demo_world = today (demo_world\<lparr>rng := \<lparr>uniform_draws = [12, 50, 98] @- sconst 7,
                                                normal_draws = [-5, 0, 1] @- sconst 7\<rparr>\<rparr>)
   \<and> stake (nat 3) (uniform_draws (rng demo_world)) = stake (nat 3) ([12, 50, 98] @- sconst 7)
   \<and> stake (nat 3) (normal_draws (rng demo_world)) = stake (nat 3) ([-5, 0, 1] @- sconst 7)
   \<and> fst (generate_dataset demo_world 30 (1/2) 10 3)
       = fst (generate_dataset (demo_world\<lparr>rng := \<lparr>uniform_draws = [12, 50, 98] @- sconst 7,
                                                   normal_draws = [-5, 0, 1] @- sconst 7\<rparr>\<rparr>)
                30 (1/2) 10 3)"
proof -
  let ?w = "demo_world\<lparr>rng := \<lparr>uniform_draws = [12, 50, 98] @- sconst 7,
                                  normal_draws = [-5, 0, 1] @- sconst 7\<rparr>\<rparr>"
  have d: "today demo_world = today ?w"
    by simp
  have u: "stake (nat 3) (uniform_draws (rng demo_world)) = stake (nat 3) (uniform_draws (rng ?w))"
    by (simp add: demo_world_def eval_nat_numeral)
  have e: "stake (nat 3) (normal_draws (rng demo_world)) = stake (nat 3) (normal_draws (rng ?w))"
    by (simp add: demo_world_def eval_nat_numeral)
  show ?thesis
    using d u e generate_dataset_deterministic_given_date_and_draws [OF d u e, of 30 "1/2" 10]
    by simp
qed

text \<open>
  Claim C8 as stated fails: the table also depends on the calendar. Two calls with the
  same random source and the same parameters, one on 7 March 2021 and one on the next
  day, return tables that differ in the \<open>date\<close> column.
\<close>

theorem generate_dataset_depends_on_date_counterexample:
  "rng demo_world = rng (demo_world\<lparr>today := \<lparr>year = 2021, month = 3, day = 8\<rparr>\<rparr>)
   \<and> fst (generate_dataset demo_world 30 (1/2) 10 3)
       \<noteq> fst (generate_dataset (demo_world\<lparr>today := \<lparr>year = 2021, month = 3, day = 8\<rparr>\<rparr>)
                30 (1/2) 10 3)"
proof -
  have d: "date_str \<lparr>year = 2021, month = 3, day = 8\<rparr> = ''2021-03-08''"
    by (simp add: date_str_def zfill_def dec.simps digit_char_def)
  show ?thesis
    using generate_dataset_eq
      [of 3 "demo_world\<lparr>today := \<lparr>year = 2021, month = 3, day = 8\<rparr>\<rparr>" 30 "1/2" 10]
    by (simp add: demo_generate demo_dataset_def Let_def d demo_X3 demo_E3 upt_rec)
qed

text \<open>
  Claim C9. For \<open>n = 0\<close> \<open>generate_dataset\<close> returns without error: the table has no rows
  and still has the three columns \<open>date\<close>, \<open>y\<close>, \<open>X\<close>; the world is unchanged.
\<close>

theorem generate_dataset_zero_rows:
  "generate_dataset w alpha beta sigma 0 =
     (Inr \<lparr>index = [],
           columns = [(''date'', StrCol []), (''y'', NumCol []), (''X'', NumCol [])]\<rparr>, w)"
  by (simp add: generate_dataset_eq Let_def)

text \<open>
  Claim C10. For \<open>alpha \<ge> 0\<close>, \<open>beta \<ge> 0\<close>, \<open>sigma = 0\<close> and \<open>n > 0\<close>, when the uniform draws
  lie in \<open>[0, 100)\<close>, no row is dropped: the table has exactly the \<open>n\<close> rows \<open>0, \<dots>, n - 1\<close>,
  with \<open>y = alpha + beta * X\<close>.
\<close>

theorem generate_dataset_sigma_zero_keeps_all_rows:
  assumes "0 \<le> alpha" and "0 \<le> beta" and "0 < n"
    and "\<forall>x \<in> set (stake (nat n) (uniform_draws (rng w))). 0 \<le> x \<and> x < 100"
  shows "generate_dataset w alpha beta 0 n =
    (let X = stake (nat n) (uniform_draws (rng w))
     in (Inr \<lparr>index = [0..<nat n],
              columns = [(''date'', StrCol (replicate (nat n) (date_str (today w)))),
                         (''y'', NumCol (map (\<lambda>x. alpha + beta * x) X)),
                         (''X'', NumCol X)]\<rparr>,
         w\<lparr>rng := \<lparr>uniform_draws = sdrop (nat n) (uniform_draws (rng w)),
                   normal_draws = sdrop (nat n) (normal_draws (rng w))\<rparr>\<rparr>))"
proof -
  define X where "X = stake (nat n) (uniform_draws (rng w))"
  define E where "E = stake (nat n) (normal_draws (rng w))"
  have lX: "length X = nat n" by (simp add: X_def)
  have nonneg: "0 \<le> alpha + beta * X ! i" if "i < nat n" for i
  proof -
    have "X ! i \<in> set X" using that lX by simp
    then have "0 \<le> X ! i" using assms(4) by (simp add: X_def)
    then have "0 \<le> beta * X ! i" using assms(2) by simp
    then show ?thesis using assms(1) by simp
  qed
  have keep_all: "filter (\<lambda>i. 0 \<le> alpha + beta * X ! i) [0..<nat n] = [0..<nat n]"
    by (rule filter_True) (simp add: nonneg)
  have yX: "map (\<lambda>i. alpha + beta * X ! i) [0..<nat n] = map (\<lambda>x. alpha + beta * x) X"
    using lX by (intro nth_equalityI) simp_all
  have XX: "map ((!) X) [0..<nat n] = X"
    using lX map_nth [of X] by simp
  have dd: "map (\<lambda>i. d) [0..<nat n] = replicate (nat n) d" for d :: string
    by (simp add: map_replicate_const)
  from assms(3) have n: "0 \<le> n" by simp
  show ?thesis
    unfolding generate_dataset_eq [OF n] Let_def X_def [symmetric] E_def [symmetric]
    by (simp add: keep_all yX XX dd)
qed

theorem generate_dataset_sigma_zero_keeps_all_rows_witness:
  "(0::real) \<le> 30 \<and> (0::real) \<le> 1/2 \<and> (0::int) < 3
   \<and> stake (nat 3) (uniform_draws (rng demo_world)) = [12, 50, 98]
   \<and> (0::real) \<le> 12 \<and> (98::real) < 100
   \<and> fst (generate_dataset demo_world 30 (1/2) 0 3) =
       Inr \<lparr>index = [0, 1, 2],
            columns = [(''date'', StrCol [''2021-03-07'', ''2021-03-07'', ''2021-03-07'']),
                       (''y'', NumCol [36, 55, 79]), (''X'', NumCol [12, 50, 98])]\<rparr>"
proof -
  have r3: "replicate 3 d = [d, d, d]" for d :: string
    by (simp add: numeral_3_eq_3)
  have range: "\<forall>x \<in> set (stake (nat 3) (uniform_draws (rng demo_world))). 0 \<le> x \<and> x < 100"
    by (simp add: demo_X3)
  have "fst (generate_dataset demo_world 30 (1/2) 0 3) =
       Inr \<lparr>index = [0, 1, 2],
            columns = [(''date'', StrCol [''2021-03-07'', ''2021-03-07'', ''2021-03-07'']),
                       (''y'', NumCol [36, 55, 79]), (''X'', NumCol [12, 50, 98])]\<rparr>"
    using generate_dataset_sigma_zero_keeps_all_rows [of 30 "1/2" 3 demo_world, OF _ _ _ range]
    by (simp add: Let_def demo_today demo_X3 upt_rec r3)
  then show ?thesis by (simp add: demo_X3)
qed

section \<open>Properties of \<open>persist_dataset\<close>\<close>

text \<open>
  In the statements below \<open>fn\<close> is the local file name \<open>persist_dataset\<close> derives from the
  current date, and \<open>''datasets/'' @ fn\<close> is the remote key.
\<close>

text \<open>
  Claim C2. \<open>persist_dataset\<close> catches one error category only. When the upload raises
  \<open>ClientError\<close>, the function prints the warning and returns normally. Any other error
  \<open>e\<close>, raised while the file is written, while the client is obtained or by the upload,
  leaves \<open>persist_dataset\<close> as \<open>e\<close>; \<open>main\<close> does not catch it either, so the run ends
  with \<open>e\<close>.
\<close>

theorem persist_dataset_catches_only_ClientError:
  assumes fn: "fn = ''regression-dataset-'' @ date_str (today w) @ ''.csv''"
  shows
    "(to_csv_fault w fn = None \<and> client_fault w = None
        \<and> upload_fault w fn aws_bucket (''datasets/'' @ fn) = Some ClientError
      \<longrightarrow> fst (persist_dataset fmt w dataset aws_bucket) = Inr ()
          \<and> stdout (snd (persist_dataset fmt w dataset aws_bucket))
              = stdout w @ [''could not upload dataset to S3 - check AWS credentials''])
     \<and> (e \<noteq> ClientError
        \<and> (to_csv_fault w fn = Some e
           \<or> to_csv_fault w fn = None
              \<and> (client_fault w = Some e
                 \<or> client_fault w = None
                    \<and> upload_fault w fn aws_bucket (''datasets/'' @ fn) = Some e))
      \<longrightarrow> fst (persist_dataset fmt w dataset aws_bucket) = Inl e)
     \<and> (e \<noteq> ClientError
        \<and> (to_csv_fault w fn = Some e
           \<or> to_csv_fault w fn = None
              \<and> (client_fault w = Some e
                 \<or> client_fault w = None
                    \<and> upload_fault w fn AWS_S3_BUCKET (''datasets/'' @ fn) = Some e))
      \<longrightarrow> fst (main fmt w) = Inl e)"
proof (intro conjI impI)
  assume "to_csv_fault w fn = None \<and> client_fault w = None
        \<and> upload_fault w fn aws_bucket (''datasets/'' @ fn) = Some ClientError"
  then have p: "persist_dataset fmt w dataset aws_bucket =
     (Inr (), w\<lparr>disk := (disk w)(fn \<mapsto> to_csv fmt dataset True False),
                 upload_calls := upload_calls w @ [(fn, aws_bucket, ''datasets/'' @ fn)],
                 stdout := stdout w @ [''could not upload dataset to S3 - check AWS credentials'']\<rparr>)"
    by (simp add: persist_dataset_upload_raises [OF fn] Let_def)
  show "fst (persist_dataset fmt w dataset aws_bucket) = Inr ()"
    by (simp add: p)
  show "stdout (snd (persist_dataset fmt w dataset aws_bucket))
              = stdout w @ [''could not upload dataset to S3 - check AWS credentials'']"
    by (simp add: p)
next
  assume "e \<noteq> ClientError
        \<and> (to_csv_fault w fn = Some e
           \<or> to_csv_fault w fn = None
              \<and> (client_fault w = Some e
                 \<or> client_fault w = None
                    \<and> upload_fault w fn aws_bucket (''datasets/'' @ fn) = Some e))"
  then show "fst (persist_dataset fmt w dataset aws_bucket) = Inl e"
    by (intro persist_dataset_propagates [OF fn]) simp_all
next
  assume "e \<noteq> ClientError
        \<and> (to_csv_fault w fn = Some e
           \<or> to_csv_fault w fn = None
              \<and> (client_fault w = Some e
                 \<or> client_fault w = None
                    \<and> upload_fault w fn AWS_S3_BUCKET (''datasets/'' @ fn) = Some e))"
  then show "fst (main fmt w) = Inl e"
    by (intro main_propagates [OF fn]) simp_all
qed

theorem persist_dataset_catches_only_ClientError_witness:
  "fst (persist_dataset demo_fmt (demo_world\<lparr>upload_fault := \<lambda>f b k. Some ClientError\<rparr>)
          demo_dataset AWS_S3_BUCKET) = Inr ()
   \<and> stdout (snd (persist_dataset demo_fmt
                    (demo_world\<lparr>upload_fault := \<lambda>f b k. Some ClientError\<rparr>)
                    demo_dataset AWS_S3_BUCKET))
       = [''could not upload dataset to S3 - check AWS credentials'']
   \<and> OtherError ''S3UploadFailedError'' \<noteq> ClientError
   \<and> fst (persist_dataset demo_fmt
            (demo_world\<lparr>upload_fault := \<lambda>f b k. Some (OtherError ''S3UploadFailedError'')\<rparr>)
            demo_dataset AWS_S3_BUCKET) = Inl (OtherError ''S3UploadFailedError'')
   \<and> fst (main demo_fmt
            (demo_world\<lparr>upload_fault := \<lambda>f b k. Some (OtherError ''S3UploadFailedError'')\<rparr>))
       = Inl (OtherError ''S3UploadFailedError'')
   \<and> fst (main demo_fmt (demo_world\<lparr>to_csv_fault := \<lambda>f. Some (OtherError ''OSError'')\<rparr>))
       = Inl (OtherError ''OSError'')"
proof -
  let ?fn = "''regression-dataset-2021-03-07.csv''"
  let ?wa = "demo_world\<lparr>upload_fault := \<lambda>f b k. Some ClientError\<rparr>"
  let ?wb = "demo_world\<lparr>upload_fault := \<lambda>f b k. Some (OtherError ''S3UploadFailedError'')\<rparr>"
  let ?wc = "demo_world\<lparr>to_csv_fault := \<lambda>f. Some (OtherError ''OSError'')\<rparr>"
  have fa: "?fn = ''regression-dataset-'' @ date_str (today ?wa) @ ''.csv''"
    and fb: "?fn = ''regression-dataset-'' @ date_str (today ?wb) @ ''.csv''"
    and fc: "?fn = ''regression-dataset-'' @ date_str (today ?wc) @ ''.csv''"
    by (simp_all add: demo_today)
  have quiet: "to_csv_fault demo_world = (\<lambda>f. None)" "client_fault demo_world = None"
    "stdout demo_world = []"
    by (simp_all add: demo_world_def)
  show ?thesis
    using persist_dataset_catches_only_ClientError
        [OF fa, of AWS_S3_BUCKET demo_fmt demo_dataset ClientError]
      persist_dataset_catches_only_ClientError
        [OF fb, of AWS_S3_BUCKET demo_fmt demo_dataset "OtherError ''S3UploadFailedError''"]
      persist_dataset_catches_only_ClientError
        [OF fc, of AWS_S3_BUCKET demo_fmt demo_dataset "OtherError ''OSError''"]
    by (simp add: quiet)
qed

text \<open>
  Claim C6. When the upload fails with an error of the storage client, \<open>persist_dataset\<close>
  should still return normally, with the local CSV file left on disk and a warning printed.
  The script does not do so. \<^verbatim>\<open>upload_file\<close> reports a failed transfer, such as a bucket
  the service rejects, as \<^verbatim>\<open>S3UploadFailedError\<close>, which is not a \<open>ClientError\<close>; the
  handler names \<open>ClientError\<close> only. With a rejected bucket the file is written and stays on
  disk, but the exception leaves \<open>persist_dataset\<close> and no warning is printed.
\<close>

theorem persist_dataset_rejected_bucket_escapes:
  "fst (persist_dataset demo_fmt
       (demo_world\<lparr>upload_fault :=
          \<lambda>f b k. if b = ''no-such-bucket'' then Some (OtherError ''S3UploadFailedError'')
                   else None\<rparr>)
       demo_dataset ''no-such-bucket'') = Inl (OtherError ''S3UploadFailedError'')
   \<and> disk (snd (persist_dataset demo_fmt
       (demo_world\<lparr>upload_fault :=
          \<lambda>f b k. if b = ''no-such-bucket'' then Some (OtherError ''S3UploadFailedError'')
                   else None\<rparr>)
       demo_dataset ''no-such-bucket'')) ''regression-dataset-2021-03-07.csv''
      = Some [''date,y,X'', ''2021-03-07,55,50'', ''2021-03-07,89,98'']
   \<and> stdout (snd (persist_dataset demo_fmt
       (demo_world\<lparr>upload_fault :=
          \<lambda>f b k. if b = ''no-such-bucket'' then Some (OtherError ''S3UploadFailedError'')
                   else None\<rparr>)
       demo_dataset ''no-such-bucket'')) = []"
proof -
  let ?fn = "''regression-dataset-2021-03-07.csv''"
  let ?w = "demo_world\<lparr>upload_fault :=
              \<lambda>f b k. if b = ''no-such-bucket'' then Some (OtherError ''S3UploadFailedError'')
                       else None\<rparr>"
  have fn: "?fn = ''regression-dataset-'' @ date_str (today ?w) @ ''.csv''"
    by (simp add: demo_today)
  have csv: "to_csv_fault ?w ?fn = None" and cli: "client_fault ?w = None"
    by (simp_all add: demo_world_def)
  have upl: "upload_fault ?w ?fn ''no-such-bucket'' (''datasets/'' @ ?fn)
               = Some (OtherError ''S3UploadFailedError'')"
    by simp
  have quiet: "stdout demo_world = []"
    by (simp add: demo_world_def)
  show ?thesis
    by (simp add: persist_dataset_upload_raises [OF fn csv cli upl] Let_def demo_csv quiet)
qed

text \<open>
  Claim C5. For a Dataset with the columns \<open>date\<close>, \<open>y\<close>, \<open>X\<close> (as \<open>generate_dataset\<close>
  returns it), when the file can be written, \<open>persist_dataset\<close> leaves in the local file
  \<open>regression-dataset-<date>.csv\<close> the header line \<open>date,y,X\<close> followed by one line per
  row, in row order, holding the row's date, \<open>y\<close> and \<open>X\<close> and no row label. When the
  client is obtained, it calls the upload with that file, the bucket and the key
  \<open>datasets/regression-dataset-<date>.csv\<close>. For a calendar date the \<open><date>\<close> part is
  the ten characters \<open>YYYY-MM-DD\<close>.
\<close>

theorem persist_dataset_csv_file_and_upload_key:
  assumes fn: "fn = ''regression-dataset-'' @ date_str (today w) @ ''.csv''"
    and cols: "columns dataset = [(''date'', StrCol ds), (''y'', NumCol ys), (''X'', NumCol xs)]"
    and lens: "length ds = length (index dataset)" "length ys = length (index dataset)"
      "length xs = length (index dataset)"
    and written: "to_csv_fault w fn = None"
  shows "disk (snd (persist_dataset fmt w dataset aws_bucket)) fn =
           Some (''date,y,X''
                 # map (\<lambda>(d, v, x). d @ '','' @ fmt v @ '','' @ fmt x) (zip ds (zip ys xs)))
         \<and> (client_fault w = None \<longrightarrow>
              upload_calls (snd (persist_dataset fmt w dataset aws_bucket)) =
                upload_calls w @ [(fn, aws_bucket, ''datasets/'' @ fn)])
         \<and> (year (today w) < 10000 \<and> month (today w) < 100 \<and> day (today w) < 100 \<longrightarrow>
              fn = ''regression-dataset-''
                   @ [digit_char (year (today w) div 1000), digit_char (year (today w) div 100 mod 10),
                      digit_char (year (today w) div 10 mod 10), digit_char (year (today w) mod 10)]
                   @ ''-''
                   @ [digit_char (month (today w) div 10), digit_char (month (today w) mod 10)]
                   @ ''-''
                   @ [digit_char (day (today w) div 10), digit_char (day (today w) mod 10)]
                   @ ''.csv'')"
proof (intro conjI)
  note csv = to_csv_date_y_X [OF cols lens, of fmt]
  have file_and_call:
    "disk (snd (persist_dataset fmt w dataset aws_bucket)) fn =
           Some (''date,y,X''
                 # map (\<lambda>(d, v, x). d @ '','' @ fmt v @ '','' @ fmt x) (zip ds (zip ys xs)))
         \<and> (client_fault w = None \<longrightarrow>
              upload_calls (snd (persist_dataset fmt w dataset aws_bucket)) =
                upload_calls w @ [(fn, aws_bucket, ''datasets/'' @ fn)])"
  proof (cases "client_fault w")
    case (Some e)
    then show ?thesis
      by (simp add: persist_dataset_client_raises [OF fn written] Let_def csv)
  next
    case None
    show ?thesis
    proof (cases "upload_fault w fn aws_bucket (''datasets/'' @ fn)")
      case (Some e)
      then show ?thesis
        by (simp add: persist_dataset_upload_raises [OF fn written None] Let_def csv)
    next
      case accepted: None
      then show ?thesis
        by (simp add: persist_dataset_uploaded [OF fn written None] csv)
    qed
  qed
  then show "disk (snd (persist_dataset fmt w dataset aws_bucket)) fn =
           Some (''date,y,X''
                 # map (\<lambda>(d, v, x). d @ '','' @ fmt v @ '','' @ fmt x) (zip ds (zip ys xs)))"
    by (rule conjunct1)
  from file_and_call show "client_fault w = None \<longrightarrow>
              upload_calls (snd (persist_dataset fmt w dataset aws_bucket)) =
                upload_calls w @ [(fn, aws_bucket, ''datasets/'' @ fn)]"
    by (rule conjunct2)
  show "year (today w) < 10000 \<and> month (today w) < 100 \<and> day (today w) < 100 \<longrightarrow>
              fn = ''regression-dataset-''
                   @ [digit_char (year (today w) div 1000), digit_char (year (today w) div 100 mod 10),
                      digit_char (year (today w) div 10 mod 10), digit_char (year (today w) mod 10)]
                   @ ''-''
                   @ [digit_char (month (today w) div 10), digit_char (month (today w) mod 10)]
                   @ ''-''
                   @ [digit_char (day (today w) div 10), digit_char (day (today w) mod 10)]
                   @ ''.csv''"
    unfolding fn by (simp add: date_str_iso)
qed

theorem persist_dataset_csv_file_and_upload_key_witness:
  "columns demo_dataset =
     [(''date'', StrCol [''2021-03-07'', ''2021-03-07'']), (''y'', NumCol [55, 89]),
      (''X'', NumCol [50, 98])]
   \<and> length (index demo_dataset) = 2
   \<and> to_csv_fault demo_world ''regression-dataset-2021-03-07.csv'' = None
   \<and> client_fault demo_world = None
   \<and> year (today demo_world) < 10000 \<and> month (today demo_world) < 100
   \<and> day (today demo_world) < 100
   \<and> disk (snd (persist_dataset demo_fmt demo_world demo_dataset AWS_S3_BUCKET))
        ''regression-dataset-2021-03-07.csv''
      = Some [''date,y,X'', ''2021-03-07,55,50'', ''2021-03-07,89,98'']
   \<and> upload_calls (snd (persist_dataset demo_fmt demo_world demo_dataset AWS_S3_BUCKET))
      = [(''regression-dataset-2021-03-07.csv'', ''bodywork-ml-ops-project'',
          ''datasets/regression-dataset-2021-03-07.csv'')]"
proof -
  let ?fn = "''regression-dataset-2021-03-07.csv''"
  have fn: "?fn = ''regression-dataset-'' @ date_str (today demo_world) @ ''.csv''"
    by (simp add: demo_today)
  have cols: "columns demo_dataset =
     [(''date'', StrCol [''2021-03-07'', ''2021-03-07'']), (''y'', NumCol [55, 89]),
      (''X'', NumCol [50, 98])]"
    and ix: "length (index demo_dataset) = 2"
    by (simp_all add: demo_dataset_def)
  have env: "to_csv_fault demo_world ?fn = None" "client_fault demo_world = None"
    "upload_calls demo_world = []"
    "year (today demo_world) < 10000 \<and> month (today demo_world) < 100
       \<and> day (today demo_world) < 100"
    by (simp_all add: demo_world_def)
  have lens: "length [''2021-03-07'', ''2021-03-07''] = length (index demo_dataset)"
    "length [55, 89 :: real] = length (index demo_dataset)"
    "length [50, 98 :: real] = length (index demo_dataset)"
    by (simp_all add: ix)
  note inst = persist_dataset_csv_file_and_upload_key
      [OF fn cols lens env(1), of demo_fmt AWS_S3_BUCKET]
  from inst have written_file:
    "disk (snd (persist_dataset demo_fmt demo_world demo_dataset AWS_S3_BUCKET)) ?fn =
       Some (''date,y,X''
             # map (\<lambda>(d, v, x). d @ '','' @ demo_fmt v @ '','' @ demo_fmt x)
                 (zip [''2021-03-07'', ''2021-03-07''] (zip [55, 89] [50, 98])))"
    by (rule conjunct1)
  from inst have call:
    "client_fault demo_world = None \<longrightarrow>
       upload_calls (snd (persist_dataset demo_fmt demo_world demo_dataset AWS_S3_BUCKET)) =
         upload_calls demo_world @ [(?fn, AWS_S3_BUCKET, ''datasets/'' @ ?fn)]"
    by (rule conjunct2 [THEN conjunct1])
  show ?thesis
    using written_file call by (simp add: ix cols env demo_fmt_values AWS_S3_BUCKET_def)
qed

end
